theory Spec2Isabelle
  imports Main
begin

section \<open>The keyedlit analysis pass\<close>

text \<open>
  A shallow embedding of \<^verbatim>\<open>passes/keyedlit/keyedlit.go\<close>: the visitor that
  \<^verbatim>\<open>run\<close> registers for composite literals, and \<^verbatim>\<open>mustBeSpecified\<close>.
  What the pass takes from its host (the syntax tree, the file set, the type
  information and the reporting sink) is data of the model.
\<close>

subsection \<open>Syntax tree\<close>

text \<open>
  The expressions of \<^verbatim>\<open>go/ast\<close>, as far as the pass tells them apart: it looks for
  \<^verbatim>\<open>*ast.Ident\<close>, \<^verbatim>\<open>*ast.SelectorExpr\<close> and \<^verbatim>\<open>*ast.KeyValueExpr\<close>, and every
  other node takes the default branch. A selector's \<^verbatim>\<open>Sel\<close> is an identifier,
  kept by its name.
\<close>

datatype expr =
    Ident string
  | BasicLit string
  | SelectorExpr expr string
  | StarExpr expr
  | IndexExpr expr expr
  | ArrayType "expr option" expr
  | MapType expr expr
  | StructType
  | KeyValueExpr expr expr
  | OtherExpr

text \<open>
  \<^verbatim>\<open>ast.CompositeLit\<close>: its start position, the type expression (nil when the type
  is elided, as in the inner literals of \<^verbatim>\<open>[]T{{A: 1}}\<close>) and the elements.
\<close>

record CompositeLit =
  Pos :: nat
  Type :: "expr option"
  Elts :: "expr list"

subsection \<open>Types\<close>

text \<open>
  \<^verbatim>\<open>types.Var\<close> for a struct field. The pass reads \<^verbatim>\<open>Name()\<close>,
  \<^verbatim>\<open>Exported()\<close> and \<^verbatim>\<open>Type().String()\<close> only, so the declared type is kept
  as the string the type writer prints for it, and whether the field is exported
  as the type checker answers it.
\<close>

record Var =
  Name :: string
  Exported :: bool
  TypeString :: string

datatype gotype =
    Basic string
  | Pointer gotype
  | Slice gotype
  | Array nat gotype
  | Map gotype gotype
  | Struct "Var list"
  | Named string gotype

text \<open>\<^verbatim>\<open>Type.Underlying()\<close>: a named type gives the type it was declared as.\<close>

fun Underlying :: "gotype \<Rightarrow> gotype" where
  "Underlying (Named n t) = Underlying t"
| "Underlying t = t"

subsection \<open>The pass and its sink\<close>

text \<open>
  \<^verbatim>\<open>analysis.Pass\<close>, as far as \<^verbatim>\<open>run\<close> reads it: \<^verbatim>\<open>Filename\<close> is
  \<^verbatim>\<open>pass.Fset.Position(p).Filename\<close>, \<^verbatim>\<open>TypeOf\<close> is \<^verbatim>\<open>pass.TypesInfo.TypeOf\<close>
  (nil, here \<open>None\<close>, for an expression the checker recorded no type for), and
  \<^verbatim>\<open>Nodes\<close> are the composite literals in the order in which the inspector's
  \<^verbatim>\<open>Preorder\<close> hands them to the callback.
\<close>

record pass =
  Filename :: "nat \<Rightarrow> string"
  TypeOf :: "CompositeLit \<Rightarrow> gotype option"
  Nodes :: "CompositeLit list"

datatype diagnostic = Diagnostic nat string

text \<open>The diagnostics reported so far, oldest first.\<close>

type_synonym sink = "diagnostic list"

text \<open>\<^verbatim>\<open>pass.Reportf(pos, ...)\<close> hands one diagnostic to the sink.\<close>

definition Reportf :: "sink \<Rightarrow> nat \<Rightarrow> string \<Rightarrow> sink" where
  "Reportf s pos msg = s @ [Diagnostic pos msg]"

text \<open>
  The two run-time panics of the visitor: calling \<^verbatim>\<open>Underlying()\<close> on a nil
  \<^verbatim>\<open>types.Type\<close> (line 70), and a failing unchecked type assertion
  \<^verbatim>\<open>el.(*ast.KeyValueExpr)\<close> (line 106).
\<close>

datatype error = NilDereference | InterfaceConversion

subsection \<open>Package strings\<close>

text \<open>\<^verbatim>\<open>strings.HasPrefix\<close>, \<^verbatim>\<open>strings.HasSuffix\<close> and \<^verbatim>\<open>strings.Contains\<close>, on bytes.\<close>

definition HasPrefix :: "string \<Rightarrow> string \<Rightarrow> bool" where
  "HasPrefix s prefix = (length s \<ge> length prefix \<and> take (length prefix) s = prefix)"

definition HasSuffix :: "string \<Rightarrow> string \<Rightarrow> bool" where
  "HasSuffix s suffix =
     (length s \<ge> length suffix \<and> drop (length s - length suffix) s = suffix)"

fun Contains :: "string \<Rightarrow> string \<Rightarrow> bool" where
  "Contains [] substr = (substr = [])"
| "Contains (c # s) substr = (HasPrefix (c # s) substr \<or> Contains s substr)"

subsection \<open>mustBeSpecified\<close>

text \<open>The package variable \<^verbatim>\<open>strictF\<close> is only read; it is a parameter.\<close>

definition mustBeSpecified :: "bool \<Rightarrow> Var \<Rightarrow> bool" where
  "mustBeSpecified strictF field =
     (if strictF then Exported field
      else if Contains (Name field) ''KeepAlive'' \<and> TypeString field = ''time.Duration''
        then True
      else if Contains (Name field) ''Timeout'' \<and> TypeString field = ''time.Duration''
        then True
      else False)"

subsection \<open>The visitor\<close>

text \<open>The type switch on \<^verbatim>\<open>lit.Type\<close> (lines 76 to 84); \<open>None\<close> is its default branch.\<close>

fun typeName :: "expr option \<Rightarrow> string option" where
  "typeName (Some (SelectorExpr x sel)) = Some sel"
| "typeName (Some (Ident name)) = Some name"
| "typeName _ = None"

text \<open>
  The keyedness scan (lines 86 to 95), started with \<^verbatim>\<open>isKeyedLiteral\<close> false:
  \<open>None\<close> is the early return at an element that is no key/value pair, \<open>Some b\<close> the
  value of \<^verbatim>\<open>isKeyedLiteral\<close> after the loop.
\<close>

fun scanKeyed :: "expr list \<Rightarrow> bool \<Rightarrow> bool option" where
  "scanKeyed [] isKeyedLiteral = Some isKeyedLiteral"
| "scanKeyed (KeyValueExpr k v # es) isKeyedLiteral = scanKeyed es True"
| "scanKeyed (e # es) isKeyedLiteral = None"

text \<open>
  The loop over the elements for one field (lines 104 to 116): the value of
  \<^verbatim>\<open>fieldIsSpecified\<close> after it, or the panic of the type assertion.
\<close>

fun fieldIsSpecified :: "string \<Rightarrow> expr list \<Rightarrow> error + bool" where
  "fieldIsSpecified fname [] = Inr False"
| "fieldIsSpecified fname (KeyValueExpr (Ident name) v # els) =
     (if name = fname then Inr True else fieldIsSpecified fname els)"
| "fieldIsSpecified fname (KeyValueExpr k v # els) = fieldIsSpecified fname els"
| "fieldIsSpecified fname (el # els) = Inl InterfaceConversion"

text \<open>
  The loop over the struct's fields (lines 101 to 121), from field \<^verbatim>\<open>ii\<close> on:
  the fields still to visit are the list. A panic ends it with the sink as it is.
\<close>

fun checkFields ::
  "bool \<Rightarrow> CompositeLit \<Rightarrow> string \<Rightarrow> Var list \<Rightarrow> sink \<Rightarrow> sink \<times> error option" where
  "checkFields strictF lit tn [] s = (s, None)"
| "checkFields strictF lit tn (field # rest) s =
     (if mustBeSpecified strictF field then
        (case fieldIsSpecified (Name field) (Elts lit) of
           Inl e \<Rightarrow> (s, Some e)
         | Inr specified \<Rightarrow>
             checkFields strictF lit tn rest
               (if \<not> specified
                then Reportf s (Pos lit) (''unspecified field '' @ Name field @ '' of '' @ tn)
                else s))
      else checkFields strictF lit tn rest s)"

text \<open>The callback given to \<^verbatim>\<open>inspect.Preorder\<close> (lines 63 to 123), for one literal.\<close>

definition visit :: "bool \<Rightarrow> pass \<Rightarrow> CompositeLit \<Rightarrow> sink \<Rightarrow> sink \<times> error option" where
  "visit strictF pass lit s =
     (if HasSuffix (Filename pass (Pos lit)) ''_test.go'' then (s, None)
      else
        (case TypeOf pass lit of
           None \<Rightarrow> (s, Some NilDereference)
         | Some ty \<Rightarrow>
             (case Underlying ty of
                Struct flds \<Rightarrow>
                  (case typeName (Type lit) of
                     None \<Rightarrow> (s, None)
                   | Some tn \<Rightarrow>
                       (case scanKeyed (Elts lit) False of
                          None \<Rightarrow> (s, None)
                        | Some isKeyedLiteral \<Rightarrow>
                            if \<not> isKeyedLiteral then (s, None)
                            else checkFields strictF lit tn flds s))
              | _ \<Rightarrow> (s, None))))"

text \<open>
  \<^verbatim>\<open>inspect.Preorder\<close> with the node filter of \<^verbatim>\<open>run\<close>: it calls the visitor on
  each composite literal in turn; a panic ends the walk.
\<close>

fun Preorder_nodes ::
  "(CompositeLit \<Rightarrow> sink \<Rightarrow> sink \<times> error option) \<Rightarrow> CompositeLit list \<Rightarrow> sink
     \<Rightarrow> sink \<times> error option" where
  "Preorder_nodes f [] s = (s, None)"
| "Preorder_nodes f (n # ns) s =
     (case f n s of
        (s', Some e) \<Rightarrow> (s', Some e)
      | (s', None) \<Rightarrow> Preorder_nodes f ns s')"

definition run :: "bool \<Rightarrow> pass \<Rightarrow> sink \<Rightarrow> sink \<times> error option" where
  "run strictF pass s = Preorder_nodes (visit strictF pass) (Nodes pass) s"

subsection \<open>Vocabulary of the properties\<close>

text \<open>An element that is a key/value pair: the test of the keyedness scan.\<close>

fun isKeyValueExpr :: "expr \<Rightarrow> bool" where
  "isKeyValueExpr (KeyValueExpr k v) = True"
| "isKeyValueExpr e = False"

text \<open>
  The field names present as keys: the names of the keys that are plain
  identifiers, which are the only ones the matching loop compares.
\<close>

fun keyNames :: "expr list \<Rightarrow> string list" where
  "keyNames [] = []"
| "keyNames (KeyValueExpr (Ident name) v # els) = name # keyNames els"
| "keyNames (el # els) = keyNames els"

subsection \<open>Example programs\<close>

text \<open>
  The structs and literals of the scenarios: \<^verbatim>\<open>Opts\<close> with the exported fields
  \<^verbatim>\<open>Timeout time.Duration\<close> and \<^verbatim>\<open>Retries int\<close> and the unexported field
  \<^verbatim>\<open>cache\<close>; \<^verbatim>\<open>Client\<close> with \<^verbatim>\<open>Addr string\<close> and the unexported
  \<^verbatim>\<open>readTimeout time.Duration\<close>; a named map type \<^verbatim>\<open>Headers\<close>.
\<close>

definition Timeout_field :: Var where
  "Timeout_field = \<lparr>Name = ''Timeout'', Exported = True, TypeString = ''time.Duration''\<rparr>"

definition Retries_field :: Var where
  "Retries_field = \<lparr>Name = ''Retries'', Exported = True, TypeString = ''int''\<rparr>"

definition cache_field :: Var where
  "cache_field = \<lparr>Name = ''cache'', Exported = False, TypeString = ''map[string]int''\<rparr>"

definition Addr_field :: Var where
  "Addr_field = \<lparr>Name = ''Addr'', Exported = True, TypeString = ''string''\<rparr>"

definition readTimeout_field :: Var where
  "readTimeout_field =
     \<lparr>Name = ''readTimeout'', Exported = False, TypeString = ''time.Duration''\<rparr>"

definition Opts_type :: gotype where
  "Opts_type = Named ''example.Opts'' (Struct [Timeout_field, Retries_field, cache_field])"

definition Client_type :: gotype where
  "Client_type = Named ''example.Client'' (Struct [Addr_field, readTimeout_field])"

definition Headers_type :: gotype where
  "Headers_type = Named ''example.Headers'' (Map (Basic ''string'') (Basic ''string''))"

text \<open>\<^verbatim>\<open>Opts{}\<close>\<close>

definition Opts_empty :: CompositeLit where
  "Opts_empty = \<lparr>Pos = 40, Type = Some (Ident ''Opts''), Elts = []\<rparr>"

text \<open>\<^verbatim>\<open>Opts{Retries: 3}\<close>\<close>

definition Opts_retries :: CompositeLit where
  "Opts_retries =
     \<lparr>Pos = 40, Type = Some (Ident ''Opts''),
      Elts = [KeyValueExpr (Ident ''Retries'') (BasicLit ''3'')]\<rparr>"


text \<open>\<^verbatim>\<open>example.Client{Addr: x}\<close>\<close>

definition Client_addr :: CompositeLit where
  "Client_addr =
     \<lparr>Pos = 12, Type = Some (SelectorExpr (Ident ''example'') ''Client''),
      Elts = [KeyValueExpr (Ident ''Addr'') (Ident ''x'')]\<rparr>"

text \<open>\<^verbatim>\<open>Opts{Retries: 3, 5}\<close>: one element is positional.\<close>

definition Opts_mixed :: CompositeLit where
  "Opts_mixed =
     \<lparr>Pos = 40, Type = Some (Ident ''Opts''),
      Elts = [KeyValueExpr (Ident ''Retries'') (BasicLit ''3''), BasicLit ''5'']\<rparr>"

text \<open>\<^verbatim>\<open>{Retries: 3}\<close> inside \<^verbatim>\<open>[]Opts{{Retries: 3}}\<close>: the type is elided.\<close>

definition Opts_elided :: CompositeLit where
  "Opts_elided =
     \<lparr>Pos = 47, Type = None, Elts = [KeyValueExpr (Ident ''Retries'') (BasicLit ''3'')]\<rparr>"

text \<open>\<^verbatim>\<open>Headers{k: v}\<close>\<close>

definition Headers_lit :: CompositeLit where
  "Headers_lit =
     \<lparr>Pos = 90, Type = Some (Ident ''Headers''),
      Elts = [KeyValueExpr (Ident ''k'') (Ident ''v'')]\<rparr>"

text \<open>
  A pass over one file named \<open>fname\<close> that holds the literal \<open>lit\<close>, for which
  the type checker recorded the type \<open>ty\<close>.
\<close>

definition file_pass :: "string \<Rightarrow> CompositeLit \<Rightarrow> gotype \<Rightarrow> pass" where
  "file_pass fname lit ty =
     \<lparr>Filename = (\<lambda>p. fname), TypeOf = (\<lambda>l. if l = lit then Some ty else None),
      Nodes = [lit]\<rparr>"

section \<open>Properties\<close>

subsection \<open>Package strings\<close>

lemma HasPrefix_iff: "HasPrefix s p \<longleftrightarrow> (\<exists>b. s = p @ b)"
proof
  assume "HasPrefix s p"
  then have "take (length p) s = p" by (simp add: HasPrefix_def)
  then have "s = p @ drop (length p) s" by (metis append_take_drop_id)
  then show "\<exists>b. s = p @ b" ..
next
  assume "\<exists>b. s = p @ b"
  then show "HasPrefix s p" by (auto simp: HasPrefix_def)
qed

lemma HasSuffix_iff: "HasSuffix s p \<longleftrightarrow> (\<exists>a. s = a @ p)"
proof
  assume "HasSuffix s p"
  then have "drop (length s - length p) s = p" by (simp add: HasSuffix_def)
  then have "s = take (length s - length p) s @ p" by (metis append_take_drop_id)
  then show "\<exists>a. s = a @ p" ..
next
  assume "\<exists>a. s = a @ p"
  then show "HasSuffix s p" by (auto simp: HasSuffix_def)
qed

text \<open>\<^verbatim>\<open>Contains\<close> holds exactly when the second string occurs somewhere in the first.\<close>

lemma Contains_iff: "Contains s sub \<longleftrightarrow> (\<exists>a b. s = a @ sub @ b)"
proof (induction s)
  case Nil
  then show ?case by auto
next
  case (Cons c s)
  show ?case
  proof
    assume "Contains (c # s) sub"
    then consider "HasPrefix (c # s) sub" | "Contains s sub" by auto
    then show "\<exists>a b. c # s = a @ sub @ b"
    proof cases
      case 1
      then obtain b where "c # s = sub @ b" by (auto simp: HasPrefix_iff)
      then have "c # s = [] @ sub @ b" by simp
      then show ?thesis by blast
    next
      case 2
      then obtain a b where "s = a @ sub @ b" using Cons.IH by auto
      then have "c # s = (c # a) @ sub @ b" by simp
      then show ?thesis by blast
    qed
  next
    assume "\<exists>a b. c # s = a @ sub @ b"
    then obtain a b where ab: "c # s = a @ sub @ b" by auto
    show "Contains (c # s) sub"
    proof (cases a)
      case Nil
      with ab have "HasPrefix (c # s) sub" by (auto simp: HasPrefix_iff)
      then show ?thesis by simp
    next
      case (Cons x a')
      with ab have "s = a' @ sub @ b" by simp
      then have "Contains s sub" using Cons.IH by blast
      then show ?thesis by simp
    qed
  qed
qed

subsection \<open>The loops of the visitor\<close>

lemma typeName_None_iff:
  "typeName t = None \<longleftrightarrow>
     (\<forall>name. t \<noteq> Some (Ident name)) \<and> (\<forall>x sel. t \<noteq> Some (SelectorExpr x sel))"
  by (cases t rule: typeName.cases) auto

lemma scanKeyed_None: "scanKeyed es b = None \<longleftrightarrow> \<not> list_all isKeyValueExpr es"
  by (induction es b rule: scanKeyed.induct) auto

lemma scanKeyed_Some:
  "scanKeyed es b = Some r \<longleftrightarrow> list_all isKeyValueExpr es \<and> r = (b \<or> es \<noteq> [])"
  by (induction es b rule: scanKeyed.induct) auto

lemma fieldIsSpecified_keyed:
  "list_all isKeyValueExpr es \<Longrightarrow>
   fieldIsSpecified fname es = Inr (fname \<in> set (keyNames es))"
  by (induction fname es rule: fieldIsSpecified.induct) auto

lemma checkFields_keyed:
  "list_all isKeyValueExpr (Elts lit) \<Longrightarrow>
   checkFields strictF lit tn flds s =
     (s @ map (\<lambda>f. Diagnostic (Pos lit) (''unspecified field '' @ Name f @ '' of '' @ tn))
            (filter (\<lambda>f. mustBeSpecified strictF f \<and> Name f \<notin> set (keyNames (Elts lit)))
               flds),
      None)"
  by (induction flds arbitrary: s) (simp_all add: fieldIsSpecified_keyed Reportf_def)


lemma checkFields_strict_exported:
  "checkFields True lit tn (filter Exported flds) s = checkFields True lit tn flds s"
  by (induction flds arbitrary: s) (simp_all add: mustBeSpecified_def split: sum.splits)



text \<open>
  Outside test files, a literal the type checker recorded no type for ends the
  visitor in the nil dereference of line 70.
\<close>

lemma visit_unresolved_type:
  assumes "\<not> HasSuffix (Filename pass (Pos lit)) ''_test.go''" and "TypeOf pass lit = None"
  shows "visit strictF pass lit s = (s, Some NilDereference)"
  using assms by (simp add: visit_def)




text \<open>The type assertion of the matching loop cannot fail after the keyedness scan.\<close>

lemma scanKeyed_guards_assertion:
  assumes "scanKeyed es b = Some r"
  shows "fieldIsSpecified fname es \<noteq> Inl e"
  using assms by (simp add: scanKeyed_Some fieldIsSpecified_keyed)

lemma checkFields_no_conversion_panic:
  "list_all isKeyValueExpr (Elts lit) \<Longrightarrow>
   snd (checkFields strictF lit tn flds s) \<noteq> Some InterfaceConversion"
  by (simp add: checkFields_keyed)

lemma visit_no_conversion_panic:
  "snd (visit strictF pass lit s) \<noteq> Some InterfaceConversion"
  by (auto simp: visit_def scanKeyed_Some checkFields_keyed
      split: option.splits gotype.splits)

lemma Preorder_no_conversion_panic:
  assumes "\<And>n s. snd (f n s) \<noteq> Some InterfaceConversion"
  shows "snd (Preorder_nodes f ns s) \<noteq> Some InterfaceConversion"
proof (induction ns arbitrary: s)
  case Nil
  then show ?case by simp
next
  case (Cons n ns)
  show ?case
  proof (cases "f n s")
    case (Pair s' r)
    with assms [of n s] Cons show ?thesis
      by (cases r) auto
  qed
qed

lemma run_no_conversion_panic: "snd (run strictF pass s) \<noteq> Some InterfaceConversion"
  unfolding run_def by (rule Preorder_no_conversion_panic) (rule visit_no_conversion_panic)

text \<open>The failing branch of the assertion is there: a positional element reaches it.\<close>

lemma fieldIsSpecified_positional:
  "fieldIsSpecified ''Timeout'' [BasicLit ''5''] = Inl InterfaceConversion"
  by simp

section \<open>The claims\<close>

subsection \<open>C1: literals with no elements\<close>

text \<open>
  C1, as amended. A struct literal with no elements, such as \<^verbatim>\<open>Opts{}\<close>, is not
  taken for a keyed literal: the keyedness scan leaves \<^verbatim>\<open>isKeyedLiteral\<close> false
  and the visitor returns at line 97. No diagnostic is emitted for it, in either
  mode and whatever fields the struct has.
\<close>

theorem C1_empty_literal_skipped:
  assumes "TypeOf pass lit = Some ty" and "Underlying ty = Struct flds"
    and "Elts lit = []"
  shows "visit strictF pass lit s = (s, None)"
  using assms by (simp add: visit_def split: option.splits)

theorem C1_empty_literal_skipped_witness:
  "TypeOf (file_pass ''opts.go'' Opts_empty Opts_type) Opts_empty = Some Opts_type \<and>
   Underlying Opts_type = Struct [Timeout_field, Retries_field, cache_field] \<and>
   Elts Opts_empty = [] \<and>
   visit True (file_pass ''opts.go'' Opts_empty Opts_type) Opts_empty [] = ([], None)"
  using C1_empty_literal_skipped [where pass = "file_pass ''opts.go'' Opts_empty Opts_type"
      and lit = Opts_empty and ty = Opts_type
      and flds = "[Timeout_field, Retries_field, cache_field]"
      and strictF = True and s = "[]"]
  by (simp add: file_pass_def Opts_type_def Opts_empty_def)

text \<open>
  The claim as stated fails at \<^verbatim>\<open>Opts{}\<close> in default mode: \<^verbatim>\<open>Timeout\<close> must be
  specified and no key names it, yet nothing is reported.
\<close>

theorem C1_empty_literal_counterexample:
  "Elts Opts_empty = [] \<and>
   TypeOf (file_pass ''opts.go'' Opts_empty Opts_type) Opts_empty = Some Opts_type \<and>
   Underlying Opts_type = Struct [Timeout_field, Retries_field, cache_field] \<and>
   mustBeSpecified False Timeout_field \<and>
   visit False (file_pass ''opts.go'' Opts_empty Opts_type) Opts_empty [] = ([], None) \<and>
   fst (visit False (file_pass ''opts.go'' Opts_empty Opts_type) Opts_empty [])
     \<noteq> [Diagnostic 40 ''unspecified field Timeout of Opts'']"
  by (simp add: visit_def file_pass_def Opts_type_def Opts_empty_def Timeout_field_def
      mustBeSpecified_def HasPrefix_def HasSuffix_def)

subsection \<open>C2: unexported fields\<close>

text \<open>
  C2, as amended. In strict mode no diagnostic is ever emitted for an unexported
  field, whatever its name and type: the visitor does to a literal exactly what it
  does when the struct has its exported fields only. In default mode the rule does
  not look at whether a field is exported: a field must be specified or not by its
  name and type alone.
\<close>

theorem C2_unexported_fields:
  assumes "TypeOf pass lit = Some ty" and "Underlying ty = Struct flds"
  shows "visit True pass lit s =
           visit True (pass\<lparr>TypeOf := (TypeOf pass)(lit \<mapsto> Struct (filter Exported flds))\<rparr>)
             lit s \<and>
         (\<not> Exported field \<longrightarrow> \<not> mustBeSpecified True field) \<and>
         mustBeSpecified False (field\<lparr>Exported := b\<rparr>) = mustBeSpecified False field"
proof -
  have "visit True pass lit s =
      visit True (pass\<lparr>TypeOf := (TypeOf pass)(lit \<mapsto> Struct (filter Exported flds))\<rparr>) lit s"
    using assms
    by (simp add: visit_def checkFields_strict_exported split: option.splits)
  then show ?thesis
    by (simp add: mustBeSpecified_def)
qed

theorem C2_unexported_fields_witness:
  "TypeOf (file_pass ''opts.go'' Opts_retries Opts_type) Opts_retries = Some Opts_type \<and>
   Underlying Opts_type = Struct [Timeout_field, Retries_field, cache_field] \<and>
   filter Exported [Timeout_field, Retries_field, cache_field] = [Timeout_field, Retries_field] \<and>
   visit True (file_pass ''opts.go'' Opts_retries Opts_type) Opts_retries [] =
     visit True (file_pass ''opts.go'' Opts_retries (Struct [Timeout_field, Retries_field]))
       Opts_retries [] \<and>
   visit True (file_pass ''opts.go'' Opts_retries Opts_type) Opts_retries [] =
     ([Diagnostic 40 ''unspecified field Timeout of Opts''], None) \<and>
   \<not> Exported cache_field \<and> \<not> mustBeSpecified True cache_field"
proof -
  have same: "(file_pass ''opts.go'' Opts_retries Opts_type)
      \<lparr>TypeOf := (TypeOf (file_pass ''opts.go'' Opts_retries Opts_type))
         (Opts_retries \<mapsto> Struct (filter Exported [Timeout_field, Retries_field, cache_field]))\<rparr>
    = file_pass ''opts.go'' Opts_retries (Struct [Timeout_field, Retries_field])"
    by (auto simp: file_pass_def Timeout_field_def Retries_field_def cache_field_def)
  have out: "visit True (file_pass ''opts.go'' Opts_retries (Struct [Timeout_field, Retries_field]))
       Opts_retries [] = ([Diagnostic 40 ''unspecified field Timeout of Opts''], None)"
    by (simp add: visit_def file_pass_def Opts_retries_def Timeout_field_def
        Retries_field_def mustBeSpecified_def HasSuffix_def Reportf_def)
  show ?thesis
    using C2_unexported_fields [where pass = "file_pass ''opts.go'' Opts_retries Opts_type"
        and lit = Opts_retries and ty = Opts_type
        and flds = "[Timeout_field, Retries_field, cache_field]"
        and field = cache_field and s = "[]" and b = True]
    unfolding same out
    by (simp add: file_pass_def Opts_type_def Timeout_field_def Retries_field_def
        cache_field_def)
qed

text \<open>
  The claim as stated fails in default mode at \<^verbatim>\<open>example.Client{Addr: x}\<close>: the
  unexported field \<^verbatim>\<open>readTimeout time.Duration\<close> is reported.
\<close>

theorem C2_unexported_default_counterexample:
  "list_all isKeyValueExpr (Elts Client_addr) \<and>
   TypeOf (file_pass ''client.go'' Client_addr Client_type) Client_addr = Some Client_type \<and>
   Underlying Client_type = Struct [Addr_field, readTimeout_field] \<and>
   \<not> Exported readTimeout_field \<and>
   visit False (file_pass ''client.go'' Client_addr Client_type) Client_addr [] =
     ([Diagnostic 12 ''unspecified field readTimeout of Client''], None)"
  by (simp add: visit_def file_pass_def Client_type_def Client_addr_def Addr_field_def
      readTimeout_field_def mustBeSpecified_def HasPrefix_def HasSuffix_def Reportf_def)

subsection \<open>C3: the rule in default mode\<close>

text \<open>
  C3. In default mode a field must be specified if and only if its declared type
  prints as \<^verbatim>\<open>time.Duration\<close> and its name has \<^verbatim>\<open>KeepAlive\<close> or \<^verbatim>\<open>Timeout\<close>
  somewhere in it, compared byte by byte (so case-sensitively).
\<close>

theorem C3_default_rule:
  "mustBeSpecified False field \<longleftrightarrow>
     TypeString field = ''time.Duration'' \<and>
     ((\<exists>a b. Name field = a @ ''KeepAlive'' @ b) \<or> (\<exists>a b. Name field = a @ ''Timeout'' @ b))"
  by (auto simp: mustBeSpecified_def Contains_iff)

subsection \<open>C4: the rule in strict mode\<close>



subsection \<open>C5: literals with a positional element\<close>

text \<open>
  C5. A composite literal with at least one element that is not a key/value pair
  gets no diagnostic, in either mode: the visitor reports nothing, and (its type
  being resolved) it returns from the keyedness scan without checking any field.
\<close>

theorem C5_positional_element:
  assumes "\<not> list_all isKeyValueExpr (Elts lit)"
  shows "fst (visit strictF pass lit s) = s \<and>
         (TypeOf pass lit \<noteq> None \<longrightarrow> visit strictF pass lit s = (s, None))"
proof -
  have "scanKeyed (Elts lit) False = None"
    using assms by (simp add: scanKeyed_None)
  then show ?thesis
    by (auto simp: visit_def split: option.splits gotype.splits)
qed

theorem C5_positional_element_witness:
  "\<not> list_all isKeyValueExpr (Elts Opts_mixed) \<and>
   TypeOf (file_pass ''opts.go'' Opts_mixed Opts_type) Opts_mixed \<noteq> None \<and>
   visit True (file_pass ''opts.go'' Opts_mixed Opts_type) Opts_mixed [] = ([], None)"
  using C5_positional_element [where lit = Opts_mixed and strictF = True
      and pass = "file_pass ''opts.go'' Opts_mixed Opts_type" and s = "[]"]
  by (simp add: file_pass_def Opts_mixed_def)

subsection \<open>C6: literals that are not analysed\<close>

text \<open>
  C6. A composite literal whose resolved type has an underlying type that is not a
  struct, or whose type expression is neither an identifier nor a selector
  expression, is skipped: the visitor returns normally and reports nothing.
\<close>

theorem C6_not_analysable:
  assumes "TypeOf pass lit = Some ty"
    and "(\<forall>flds. Underlying ty \<noteq> Struct flds) \<or>
         ((\<forall>name. Type lit \<noteq> Some (Ident name)) \<and>
          (\<forall>x sel. Type lit \<noteq> Some (SelectorExpr x sel)))"
  shows "visit strictF pass lit s = (s, None)"
proof -
  from assms(2) consider "\<forall>flds. Underlying ty \<noteq> Struct flds" | "typeName (Type lit) = None"
    by (auto simp: typeName_None_iff)
  then show ?thesis
  proof cases
    case 1
    with assms(1) show ?thesis
      by (simp add: visit_def split: gotype.splits)
  next
    case 2
    with assms(1) show ?thesis
      by (simp add: visit_def split: gotype.splits)
  qed
qed

theorem C6_not_analysable_witness:
  "TypeOf (file_pass ''headers.go'' Headers_lit Headers_type) Headers_lit = Some Headers_type \<and>
   (\<forall>flds. Underlying Headers_type \<noteq> Struct flds) \<and>
   visit True (file_pass ''headers.go'' Headers_lit Headers_type) Headers_lit [] = ([], None) \<and>
   TypeOf (file_pass ''opts.go'' Opts_elided Opts_type) Opts_elided = Some Opts_type \<and>
   (\<forall>name. Type Opts_elided \<noteq> Some (Ident name)) \<and>
   (\<forall>x sel. Type Opts_elided \<noteq> Some (SelectorExpr x sel)) \<and>
   visit True (file_pass ''opts.go'' Opts_elided Opts_type) Opts_elided [] = ([], None)"
  using
    C6_not_analysable [where pass = "file_pass ''headers.go'' Headers_lit Headers_type"
      and lit = Headers_lit and ty = Headers_type and strictF = True and s = "[]"]
    C6_not_analysable [where pass = "file_pass ''opts.go'' Opts_elided Opts_type"
      and lit = Opts_elided and ty = Opts_type and strictF = True and s = "[]"]
  by (simp add: file_pass_def Headers_type_def Opts_elided_def)

subsection \<open>C7: test files\<close>

text \<open>
  C7. A composite literal in a file whose name ends in \<^verbatim>\<open>_test.go\<close> produces no
  diagnostic, whatever its type, its elements and the mode.
\<close>

theorem C7_test_file_skipped:
  assumes "Filename pass (Pos lit) = base @ ''_test.go''"
  shows "visit strictF pass lit s = (s, None)"
proof -
  have "HasSuffix (Filename pass (Pos lit)) ''_test.go''"
    using assms by (auto simp: HasSuffix_iff)
  then show ?thesis by (simp add: visit_def)
qed

theorem C7_test_file_skipped_witness:
  "Filename (file_pass ''opts_test.go'' Opts_retries Opts_type) (Pos Opts_retries)
     = ''opts'' @ ''_test.go'' \<and>
   visit True (file_pass ''opts_test.go'' Opts_retries Opts_type) Opts_retries [] = ([], None)"
  using C7_test_file_skipped [where pass = "file_pass ''opts_test.go'' Opts_retries Opts_type"
      and lit = Opts_retries and base = "''opts''" and strictF = True and s = "[]"]
  by (simp add: file_pass_def)

subsection \<open>C8: the diagnostics of a literal\<close>



subsection \<open>C9: determinism\<close>


subsection \<open>C10: the unchecked type assertion\<close>

text \<open>
  C10. The type assertion \<^verbatim>\<open>el.(*ast.KeyValueExpr)\<close> of the matching loop never
  fails: neither the visitor on any literal nor a whole run ends in its panic,
  since the loop is reached only after the keyedness scan has found every element
  to be a key/value pair.
\<close>

theorem C10_type_assertion_never_fails:
  "snd (visit strictF pass lit s) \<noteq> Some InterfaceConversion \<and>
   snd (run strictF pass s) \<noteq> Some InterfaceConversion"
  by (simp add: visit_no_conversion_panic run_no_conversion_panic)

end
